theory Spec2Isabelle
  imports Complex_Main "HOL-Library.Sublist"
begin

section \<open>Data model of \<open>app.py\<close>\<close>

text \<open>
  The calculation engine of \<open>app.py\<close> consists of the four classes \<open>Menuiserie\<close>,
  \<open>Paroi\<close>, \<open>Piece\<close> and \<open>Projet\<close>. Each class is a record whose fields are the
  attributes assigned in \<open>__init__\<close>; a field \<open>x\<close> of class \<open>C\<close> is named \<open>c_x\<close>, since
  several classes share attribute names (\<open>id\<close>, \<open>nom\<close>, \<open>u_value\<close>, ...).

  Numbers. Lengths, areas and losses are Python floats; they are idealised as \<open>real\<close>, so
  every theorem below speaks about exact arithmetic and says nothing about rounding.
  The insulation year comes from an integer input and is an \<open>int\<close>.

  Strings. A Python string is modelled as the list of its UTF-8 bytes. Equality and
  substring search on valid UTF-8 coincide with the same operations on code points.

  Errors. The source contains no \<open>raise\<close> statement. The operations still return a sum
  \<open>error + 'a\<close>, so that a statement "the call fails with ..." can be written down and
  compared with what the code does; \<open>Inl\<close> is a raised error, \<open>Inr\<close> a normal return.
\<close>

datatype error = InvalidDimension | OversizedGlazing | UnknownCategory

definition e_aigu :: string where
  \<comment> \<open>the letter e with acute accent, in UTF-8\<close>
  "e_aigu = [CHR 0xC3, CHR 0xA9]"

definition Exterieur :: string where
  "Exterieur = ''Ext'' @ e_aigu @ ''rieur''"

definition Local_Non_Chauffe :: string where
  "Local_Non_Chauffe = ''Local Non Chauff'' @ e_aigu"

definition Interieur_Chauffe :: string where
  "Interieur_Chauffe = ''Int'' @ e_aigu @ ''rieur (Chauff'' @ e_aigu @ '')''"

definition Beton :: string where
  "Beton = ''B'' @ e_aigu @ ''ton''"

definition Double_vitrage_recent :: string where
  "Double_vitrage_recent = ''Double vitrage r'' @ e_aigu @ ''cent (VIR)''"

fun str_in :: "string \<Rightarrow> string \<Rightarrow> bool" where
  \<comment> \<open>Python's \<open>sub in s\<close> on strings\<close>
  "str_in sub [] = (sub = [])"
| "str_in sub (c # cs) = (prefix sub (c # cs) \<or> str_in sub cs)"

definition py_sum :: "real list \<Rightarrow> real" where
  \<comment> \<open>Python's \<open>sum(...)\<close>: starts at 0 and adds from left to right\<close>
  "py_sum xs = foldl (+) 0 xs"

subsection \<open>Menuiserie\<close>

record menuiserie =
  menuiserie_id :: string
  menuiserie_nom :: string
  menuiserie_largeur :: real
  menuiserie_hauteur :: real
  menuiserie_surface :: real
  menuiserie_vitrage_type :: string
  menuiserie_u_value :: real

definition vitrage_u_value :: "string \<Rightarrow> real" where
  \<comment> \<open>the dictionary lookup \<open>{...}.get(vitrage_type, 2.8)\<close>\<close>
  "vitrage_u_value vitrage_type =
     (if vitrage_type = ''Simple vitrage'' then 5.8
      else if vitrage_type = ''Double vitrage ancien'' then 2.8
      else if vitrage_type = Double_vitrage_recent then 1.4
      else if vitrage_type = ''Triple vitrage'' then 0.8
      else 2.8)"

definition Menuiserie_init ::
  "string \<Rightarrow> string \<Rightarrow> real \<Rightarrow> real \<Rightarrow> string \<Rightarrow> error + menuiserie" where
  \<comment> \<open>\<open>uid\<close> stands for the value drawn by \<open>uuid.uuid4()\<close>\<close>
  "Menuiserie_init uid nom largeur hauteur vitrage_type =
     Inr \<lparr> menuiserie_id = uid,
           menuiserie_nom = nom,
           menuiserie_largeur = largeur,
           menuiserie_hauteur = hauteur,
           menuiserie_surface = largeur * hauteur,
           menuiserie_vitrage_type = vitrage_type,
           menuiserie_u_value = vitrage_u_value vitrage_type \<rparr>"

subsection \<open>Paroi\<close>

record paroi =
  paroi_id :: string
  paroi_nom :: string
  paroi_type_paroi :: string
  paroi_longueur :: real
  paroi_hauteur_largeur :: real
  paroi_surface_brute :: real
  paroi_orientation :: string
  paroi_contact :: string
  paroi_menuiseries :: "menuiserie list"
  paroi_u_value :: real
  paroi_b_coef :: real

definition Paroi_init ::
  "string \<Rightarrow> string \<Rightarrow> string \<Rightarrow> real \<Rightarrow> real \<Rightarrow> string \<Rightarrow> string \<Rightarrow> int \<Rightarrow> string
     \<Rightarrow> error + paroi" where
  "Paroi_init uid nom type_paroi longueur hauteur_largeur orientation contact annee_iso materiau =
     (let u_base = 2.5;
          u_base = (if str_in Beton materiau then 2.3
                    else if str_in ''Pierre'' materiau then 2.8
                    else if str_in ''Brique'' materiau then 1.5
                    else u_base);
          facteur_iso = 1.0;
          facteur_iso = (if annee_iso > 1980 then 0.5 else facteur_iso);
          facteur_iso = (if annee_iso > 2005 then 0.25 else facteur_iso);
          facteur_iso = (if annee_iso > 2015 then 0.15 else facteur_iso)
      in Inr \<lparr> paroi_id = uid,
               paroi_nom = nom,
               paroi_type_paroi = type_paroi,
               paroi_longueur = longueur,
               paroi_hauteur_largeur = hauteur_largeur,
               paroi_surface_brute = longueur * hauteur_largeur,
               paroi_orientation = orientation,
               paroi_contact = contact,
               paroi_menuiseries = [],
               paroi_u_value = u_base * facteur_iso,
               paroi_b_coef = (if contact = Local_Non_Chauffe then 0.95 else 1.0) \<rparr>)"

definition ajouter_menuiserie :: "paroi \<Rightarrow> menuiserie \<Rightarrow> error + paroi" where
  \<comment> \<open>\<open>self.menuiseries.append(menuiserie)\<close>; the updated object is returned\<close>
  "ajouter_menuiserie self m = Inr (self\<lparr>paroi_menuiseries := paroi_menuiseries self @ [m]\<rparr>)"

definition get_surface_vitree :: "paroi \<Rightarrow> real" where
  "get_surface_vitree self = py_sum (map menuiserie_surface (paroi_menuiseries self))"

definition get_surface_nette :: "paroi \<Rightarrow> real" where
  "get_surface_nette self = paroi_surface_brute self - get_surface_vitree self"

definition calcul_deperditions :: "paroi \<Rightarrow> real" where
  "calcul_deperditions self =
     (let dp_opaque = get_surface_nette self * paroi_u_value self * paroi_b_coef self;
          dp_vitree = py_sum (map (\<lambda>m. menuiserie_surface m * menuiserie_u_value m * paroi_b_coef self)
                                  (paroi_menuiseries self))
      in dp_opaque + dp_vitree)"

subsection \<open>Piece\<close>

text \<open>
  A room holds three lists of elements. The record is polymorphic in what a list entry is:
  the element itself (type \<open>paroi piece\<close>, used by the calculations), or a reference to an
  element object (used by the object store further down).
\<close>

record 'p piece =
  piece_id :: string
  piece_nom :: string
  piece_longueur :: real
  piece_largeur :: real
  piece_hauteur :: real
  piece_surface_hab :: real
  piece_volume :: real
  piece_murs :: "'p list"
  piece_planchers :: "'p list"
  piece_plafonds :: "'p list"

definition Piece_init :: "string \<Rightarrow> string \<Rightarrow> real \<Rightarrow> real \<Rightarrow> real \<Rightarrow> error + 'p piece" where
  "Piece_init uid nom longueur largeur hauteur =
     (let surface_hab = longueur * largeur
      in Inr \<lparr> piece_id = uid,
               piece_nom = nom,
               piece_longueur = longueur,
               piece_largeur = largeur,
               piece_hauteur = hauteur,
               piece_surface_hab = surface_hab,
               piece_volume = surface_hab * hauteur,
               piece_murs = [],
               piece_planchers = [],
               piece_plafonds = [] \<rparr>)"

definition ajouter_paroi :: "paroi piece \<Rightarrow> paroi \<Rightarrow> error + paroi piece" where
  "ajouter_paroi self p =
     (if paroi_type_paroi p = ''MUR'' then Inr (self\<lparr>piece_murs := piece_murs self @ [p]\<rparr>)
      else if paroi_type_paroi p = ''PLANCHER''
        then Inr (self\<lparr>piece_planchers := piece_planchers self @ [p]\<rparr>)
      else if paroi_type_paroi p = ''PLAFOND''
        then Inr (self\<lparr>piece_plafonds := piece_plafonds self @ [p]\<rparr>)
      else Inr self)"

subsection \<open>Projet\<close>

record 'r projet =
  projet_pieces :: "'r list"
  projet_altitude :: int
  projet_zone_climatique :: string
  projet_annee_construction :: int

definition Projet_init :: "'r projet" where
  "Projet_init = \<lparr> projet_pieces = [],
                    projet_altitude = 0,
                    projet_zone_climatique = ''H1'',
                    projet_annee_construction = 1990 \<rparr>"

definition psi_menuiserie :: real where "psi_menuiserie = 0.1"
definition psi_plancher :: real where "psi_plancher = 0.35"
definition psi_plafond :: real where "psi_plafond = 0.25"

text \<open>
  \<open>calcul_ponts_thermiques_auto\<close> runs three nested loops over the state
  \<open>(pertes_pt, longueur_murs_ext)\<close>; each loop is one recursive function.
\<close>

fun ponts_boucle_menuiseries :: "real \<Rightarrow> menuiserie list \<Rightarrow> real" where
  "ponts_boucle_menuiseries pertes_pt [] = pertes_pt"
| "ponts_boucle_menuiseries pertes_pt (fen # fens) =
     (let perimetre = (menuiserie_largeur fen + menuiserie_hauteur fen) * 2
      in ponts_boucle_menuiseries (pertes_pt + perimetre * psi_menuiserie) fens)"

fun ponts_boucle_murs :: "real \<times> real \<Rightarrow> paroi list \<Rightarrow> real \<times> real" where
  "ponts_boucle_murs (pertes_pt, longueur_murs_ext) [] = (pertes_pt, longueur_murs_ext)"
| "ponts_boucle_murs (pertes_pt, longueur_murs_ext) (mur # murs) =
     (let pertes_pt = ponts_boucle_menuiseries pertes_pt (paroi_menuiseries mur);
          longueur_murs_ext =
            (if paroi_contact mur \<in> set [Exterieur, Local_Non_Chauffe]
             then longueur_murs_ext + paroi_longueur mur else longueur_murs_ext)
      in ponts_boucle_murs (pertes_pt, longueur_murs_ext) murs)"

fun ponts_boucle_pieces :: "real \<times> real \<Rightarrow> paroi piece list \<Rightarrow> real \<times> real" where
  "ponts_boucle_pieces st [] = st"
| "ponts_boucle_pieces st (piece # pieces) =
     ponts_boucle_pieces (ponts_boucle_murs st (piece_murs piece)) pieces"

definition calcul_ponts_thermiques_auto :: "paroi piece projet \<Rightarrow> real" where
  "calcul_ponts_thermiques_auto self =
     (let (pertes_pt, longueur_murs_ext) = ponts_boucle_pieces (0.0, 0.0) (projet_pieces self);
          pertes_pt = pertes_pt + longueur_murs_ext * psi_plancher;
          pertes_pt = pertes_pt + longueur_murs_ext * psi_plafond
      in pertes_pt)"

text \<open>
  A row of the itemised report is a dictionary with the three keys \<open>Element\<close>, \<open>Type\<close> and
  \<open>Deperdition (W/K)\<close>.
\<close>

record ligne =
  ligne_Element :: string
  ligne_Type :: string
  ligne_Deperdition :: real

text \<open>
  The three inner loops of \<open>calcul_global_deperditions\<close> (walls, floors, ceilings) differ
  only in the \<open>Type\<close> label of the rows they append; \<open>global_boucle_parois\<close> is that loop,
  with the label as a parameter, over the state \<open>(total_watts, details)\<close>.
\<close>

fun global_boucle_parois ::
  "string \<Rightarrow> string \<Rightarrow> real \<times> ligne list \<Rightarrow> paroi list \<Rightarrow> real \<times> ligne list" where
  "global_boucle_parois nom ty (total_watts, details) [] = (total_watts, details)"
| "global_boucle_parois nom ty (total_watts, details) (p # ps) =
     (let d = calcul_deperditions p
      in global_boucle_parois nom ty
           (total_watts + d,
            details @ [\<lparr> ligne_Element = nom @ '' - '' @ paroi_nom p,
                          ligne_Type = ty,
                          ligne_Deperdition = d \<rparr>]) ps)"

fun global_boucle_pieces :: "real \<times> ligne list \<Rightarrow> paroi piece list \<Rightarrow> real \<times> ligne list" where
  "global_boucle_pieces st [] = st"
| "global_boucle_pieces st (piece # pieces) =
     (let st = global_boucle_parois (piece_nom piece) ''Mur+Baies'' st (piece_murs piece);
          st = global_boucle_parois (piece_nom piece) ''Plancher'' st (piece_planchers piece);
          st = global_boucle_parois (piece_nom piece) ''Plafond'' st (piece_plafonds piece)
      in global_boucle_pieces st pieces)"

definition calcul_global_deperditions :: "paroi piece projet \<Rightarrow> real \<times> ligne list" where
  "calcul_global_deperditions self =
     (let (total_watts, details) = global_boucle_pieces (0.0, []) (projet_pieces self);
          ponts = calcul_ponts_thermiques_auto self;
          total_watts = total_watts + ponts;
          details = details @ [\<lparr> ligne_Element = ''Global'',
                                  ligne_Type = ''Ponts Thermiques'',
                                  ligne_Deperdition = ponts \<rparr>]
      in (total_watts, details))"

section \<open>Objects and references\<close>

text \<open>
  Python objects are shared by reference: a room's lists hold references to \<open>Paroi\<close>
  objects, and \<open>ajouter_menuiserie\<close> mutates the object it is called on. The store maps
  references to objects; rooms and projects in the store hold references. Each \<open>Paroi\<close>
  creates its own \<open>menuiseries\<close> list in \<open>__init__\<close> and nothing reassigns it, and no code
  mutates a \<open>Menuiserie\<close>, so the list is kept inside the \<open>paroi\<close> record.
  A method call on a reference that names no object does not exist in Python; the model
  returns \<open>None\<close> for it.
\<close>

type_synonym ref = nat

record tas =
  tas_parois :: "ref \<rightharpoonup> paroi"
  tas_pieces :: "ref \<rightharpoonup> ref piece"
  tas_projets :: "ref \<rightharpoonup> ref projet"

definition appel_ajouter_menuiserie :: "tas \<Rightarrow> ref \<Rightarrow> menuiserie \<Rightarrow> (error + tas) option" where
  "appel_ajouter_menuiserie h r m =
     (case tas_parois h r of
        None \<Rightarrow> None
      | Some self \<Rightarrow>
          Some (case ajouter_menuiserie self m of
                  Inl e \<Rightarrow> Inl e
                | Inr self' \<Rightarrow> Inr (h\<lparr>tas_parois := (tas_parois h)(r \<mapsto> self')\<rparr>)))"

section \<open>Vocabulary of the statements\<close>

definition murs_du_projet :: "paroi piece projet \<Rightarrow> paroi list" where
  \<comment> \<open>all walls of a project, room by room\<close>
  "murs_du_projet pr = concat (map piece_murs (projet_pieces pr))"

definition parois_piece :: "paroi piece \<Rightarrow> paroi list" where
  \<comment> \<open>the elements of a room in report order: walls, floors, ceilings\<close>
  "parois_piece piece = piece_murs piece @ piece_planchers piece @ piece_plafonds piece"

definition contact_deperditif :: "paroi \<Rightarrow> bool" where
  \<comment> \<open>contact is "Exterieur" or "Local Non Chauffe"\<close>
  "contact_deperditif mur \<longleftrightarrow>
     paroi_contact mur = Exterieur \<or> paroi_contact mur = Local_Non_Chauffe"

definition lignes_parois :: "string \<Rightarrow> string \<Rightarrow> paroi list \<Rightarrow> ligne list" where
  "lignes_parois nom ty ps =
     map (\<lambda>p. \<lparr> ligne_Element = nom @ '' - '' @ paroi_nom p, ligne_Type = ty,
                 ligne_Deperdition = calcul_deperditions p \<rparr>) ps"

definition lignes_piece :: "paroi piece \<Rightarrow> ligne list" where
  "lignes_piece piece =
     lignes_parois (piece_nom piece) ''Mur+Baies'' (piece_murs piece)
     @ lignes_parois (piece_nom piece) ''Plancher'' (piece_planchers piece)
     @ lignes_parois (piece_nom piece) ''Plafond'' (piece_plafonds piece)"

text \<open>
  The thermal-bridge estimate as the specification words it: every term, the window
  perimeters included, ranges over the walls whose contact is outdoor or unheated.
\<close>

definition estimateThermalBridges_spec :: "paroi piece projet \<Rightarrow> real" where
  "estimateThermalBridges_spec pr =
     (let walls = filter contact_deperditif (murs_du_projet pr)
      in (\<Sum>w\<leftarrow>walls. \<Sum>g\<leftarrow>paroi_menuiseries w.
             2 * (menuiserie_largeur g + menuiserie_hauteur g) * 0.1)
         + (\<Sum>w\<leftarrow>walls. paroi_longueur w) * 0.35
         + (\<Sum>w\<leftarrow>walls. paroi_longueur w) * 0.25)"

subsection \<open>Sample objects\<close>

definition fenetre_1 :: menuiserie where
  "fenetre_1 = \<lparr> menuiserie_id = ''f1'', menuiserie_nom = ''Fenetre 1'',
                 menuiserie_largeur = 1.0, menuiserie_hauteur = 1.2, menuiserie_surface = 1.2,
                 menuiserie_vitrage_type = ''Simple vitrage'', menuiserie_u_value = 5.8 \<rparr>"

definition baie_13 :: menuiserie where
  "baie_13 = \<lparr> menuiserie_id = ''f2'', menuiserie_nom = ''Baie'',
               menuiserie_largeur = 5.0, menuiserie_hauteur = 2.6, menuiserie_surface = 13.0,
               menuiserie_vitrage_type = ''Triple vitrage'', menuiserie_u_value = 0.8 \<rparr>"

definition baie_12 :: menuiserie where
  "baie_12 = \<lparr> menuiserie_id = ''f3'', menuiserie_nom = ''Baie vitree'',
               menuiserie_largeur = 4.0, menuiserie_hauteur = 3.0, menuiserie_surface = 12.0,
               menuiserie_vitrage_type = ''Double vitrage ancien'', menuiserie_u_value = 2.8 \<rparr>"

definition mur_nord :: paroi where
  "mur_nord = \<lparr> paroi_id = ''m1'', paroi_nom = ''Mur Nord'', paroi_type_paroi = ''MUR'',
                paroi_longueur = 5, paroi_hauteur_largeur = 2.5, paroi_surface_brute = 12.5,
                paroi_orientation = ''Nord'', paroi_contact = Exterieur, paroi_menuiseries = [],
                paroi_u_value = 2.5, paroi_b_coef = 1.0 \<rparr>"

definition salon :: "'p piece" where
  "salon = \<lparr> piece_id = ''p1'', piece_nom = ''Salon'', piece_longueur = 5, piece_largeur = 4,
             piece_hauteur = 2.5, piece_surface_hab = 20, piece_volume = 50,
             piece_murs = [], piece_planchers = [], piece_plafonds = [] \<rparr>"

definition projet_un_mur :: "paroi \<Rightarrow> paroi piece projet" where
  "projet_un_mur mur = Projet_init\<lparr>projet_pieces := [salon\<lparr>piece_murs := [mur]\<rparr>]\<rparr>"

definition tas_exemple :: tas where
  "tas_exemple = \<lparr> tas_parois = [0 \<mapsto> mur_nord, 1 \<mapsto> mur_nord\<lparr>paroi_id := ''m2''\<rparr>],
                   tas_pieces = [0 \<mapsto> salon\<lparr>piece_murs := [0, 1]\<rparr>],
                   tas_projets = [0 \<mapsto> Projet_init\<lparr>projet_pieces := [0]\<rparr>] \<rparr>"

section \<open>Auxiliary facts\<close>

lemma str_in_sublist: "str_in sub s = sublist sub s"
  by (induction s) (simp_all add: sublist_Cons_right)

lemma foldl_plus_sum_list: "foldl (+) (a::real) xs = a + sum_list xs"
  by (induction xs arbitrary: a) simp_all

lemma py_sum_sum_list: "py_sum xs = sum_list xs"
  by (simp add: py_sum_def foldl_plus_sum_list)

text \<open>The sample objects are what the constructors build.\<close>

lemma fenetre_1_init:
  "Menuiserie_init ''f1'' ''Fenetre 1'' 1.0 1.2 ''Simple vitrage'' = Inr fenetre_1"
  by (simp add: Menuiserie_init_def fenetre_1_def vitrage_u_value_def)

lemma baie_13_init: "Menuiserie_init ''f2'' ''Baie'' 5.0 2.6 ''Triple vitrage'' = Inr baie_13"
  by (simp add: Menuiserie_init_def baie_13_def vitrage_u_value_def Double_vitrage_recent_def)

lemma baie_12_init:
  "Menuiserie_init ''f3'' ''Baie vitree'' 4.0 3.0 ''Double vitrage ancien'' = Inr baie_12"
  by (simp add: Menuiserie_init_def baie_12_def vitrage_u_value_def)

lemma mur_nord_init:
  "Paroi_init ''m1'' ''Mur Nord'' ''MUR'' 5 2.5 ''Nord'' Exterieur 0 ''Parpaing Creux'' = Inr mur_nord"
  by (simp add: Paroi_init_def mur_nord_def Exterieur_def Local_Non_Chauffe_def e_aigu_def Beton_def)

lemma salon_init: "Piece_init ''p1'' ''Salon'' 5 4 2.5 = Inr salon"
  by (simp add: Piece_init_def salon_def)

subsection \<open>The loops of the thermal-bridge estimate\<close>

lemma ponts_boucle_menuiseries_sum:
  "ponts_boucle_menuiseries a fens =
     a + (\<Sum>fen\<leftarrow>fens. 2 * (menuiserie_largeur fen + menuiserie_hauteur fen) * 0.1)"
  by (induction fens arbitrary: a) (simp_all add: psi_menuiserie_def algebra_simps)

lemma ponts_boucle_murs_sum:
  "ponts_boucle_murs (a, l) murs =
     (a + (\<Sum>mur\<leftarrow>murs. \<Sum>fen\<leftarrow>paroi_menuiseries mur.
              2 * (menuiserie_largeur fen + menuiserie_hauteur fen) * 0.1),
      l + (\<Sum>mur\<leftarrow>filter contact_deperditif murs. paroi_longueur mur))"
  by (induction murs arbitrary: a l)
     (simp_all add: ponts_boucle_menuiseries_sum contact_deperditif_def)

lemma ponts_boucle_pieces_sum:
  "ponts_boucle_pieces (a, l) pieces =
     (a + (\<Sum>mur\<leftarrow>concat (map piece_murs pieces). \<Sum>fen\<leftarrow>paroi_menuiseries mur.
              2 * (menuiserie_largeur fen + menuiserie_hauteur fen) * 0.1),
      l + (\<Sum>mur\<leftarrow>filter contact_deperditif (concat (map piece_murs pieces)). paroi_longueur mur))"
  by (induction pieces arbitrary: a l) (simp_all add: ponts_boucle_murs_sum)

lemma calcul_ponts_closed:
  "calcul_ponts_thermiques_auto pr =
     (\<Sum>mur\<leftarrow>murs_du_projet pr. \<Sum>fen\<leftarrow>paroi_menuiseries mur.
         2 * (menuiserie_largeur fen + menuiserie_hauteur fen) * 0.1)
     + (\<Sum>mur\<leftarrow>filter contact_deperditif (murs_du_projet pr). paroi_longueur mur) * 0.35
     + (\<Sum>mur\<leftarrow>filter contact_deperditif (murs_du_projet pr). paroi_longueur mur) * 0.25"
  by (simp add: calcul_ponts_thermiques_auto_def ponts_boucle_pieces_sum murs_du_projet_def
        psi_plancher_def psi_plafond_def)

subsection \<open>The loops of the itemised report\<close>

lemma global_boucle_parois_eq:
  "global_boucle_parois nom ty (t, ds) ps =
     (t + (\<Sum>p\<leftarrow>ps. calcul_deperditions p), ds @ lignes_parois nom ty ps)"
  by (induction ps arbitrary: t ds) (simp_all add: Let_def lignes_parois_def)

lemma sum_lignes_parois:
  "sum_list (map ligne_Deperdition (lignes_parois nom ty ps)) = (\<Sum>p\<leftarrow>ps. calcul_deperditions p)"
  by (simp add: lignes_parois_def comp_def)

lemma global_boucle_pieces_eq:
  "global_boucle_pieces (t, ds) pieces =
     (t + sum_list (map ligne_Deperdition (concat (map lignes_piece pieces))),
      ds @ concat (map lignes_piece pieces))"
proof (induction pieces arbitrary: t ds)
  case Nil
  show ?case by simp
next
  case (Cons piece pieces)
  show ?case
    by (simp add: Cons.IH global_boucle_parois_eq lignes_piece_def sum_lignes_parois)
qed

lemma calcul_global_eq:
  "calcul_global_deperditions pr =
     (sum_list (map ligne_Deperdition (concat (map lignes_piece (projet_pieces pr))))
        + calcul_ponts_thermiques_auto pr,
      concat (map lignes_piece (projet_pieces pr))
        @ [\<lparr> ligne_Element = ''Global'', ligne_Type = ''Ponts Thermiques'',
              ligne_Deperdition = calcul_ponts_thermiques_auto pr \<rparr>])"
  by (simp add: calcul_global_deperditions_def global_boucle_pieces_eq Let_def)

lemma valeurs_lignes_piece:
  "map ligne_Deperdition (lignes_piece piece) = map calcul_deperditions (parois_piece piece)"
  by (simp add: lignes_piece_def lignes_parois_def parois_piece_def comp_def)

lemma valeurs_lignes_pieces:
  "map ligne_Deperdition (concat (map lignes_piece ps))
     = map calcul_deperditions (concat (map parois_piece ps))"
  by (induction ps) (simp_all add: valeurs_lignes_piece)

subsection \<open>Thermal bridges away from heated-interior walls\<close>

text \<open>
  When every wall that hosts glazing has outdoor or unheated contact, the loops compute
  the formula of the specification.
\<close>

lemma somme_perimetres_filter:
  assumes "\<forall>mur\<in>set murs. contact_deperditif mur \<or> paroi_menuiseries mur = []"
  shows "(\<Sum>mur\<leftarrow>murs. \<Sum>fen\<leftarrow>paroi_menuiseries mur.
            2 * (menuiserie_largeur fen + menuiserie_hauteur fen) * 0.1)
       = (\<Sum>mur\<leftarrow>filter contact_deperditif murs. \<Sum>fen\<leftarrow>paroi_menuiseries mur.
            2 * (menuiserie_largeur fen + menuiserie_hauteur fen) * 0.1)"
  using assms by (induction murs) auto

lemma ponts_thermiques_spec_hors_cloisons:
  assumes "\<forall>mur\<in>set (murs_du_projet pr). contact_deperditif mur \<or> paroi_menuiseries mur = []"
  shows "calcul_ponts_thermiques_auto pr = estimateThermalBridges_spec pr"
  using somme_perimetres_filter [OF assms]
  by (simp add: calcul_ponts_closed estimateThermalBridges_spec_def Let_def)

subsection \<open>Glazed area after an addition\<close>


section \<open>Heat loss of one element\<close>

text \<open>
  Claim C1. For every element, \<open>calcul_deperditions\<close> returns the net opaque area times the
  element's transmittance times its coefficient \<open>b\<close>, plus the sum over its hosted glazing
  units of (area times the unit's transmittance), that sum multiplied by the same \<open>b\<close>:
  the coefficient is the element's attribute \<open>b_coef\<close> in both terms.
\<close>

theorem calcul_deperditions_formula:
  "calcul_deperditions p =
     get_surface_nette p * paroi_u_value p * paroi_b_coef p
     + (\<Sum>m\<leftarrow>paroi_menuiseries p. menuiserie_surface m * menuiserie_u_value m) * paroi_b_coef p"
proof -
  have "(\<Sum>m\<leftarrow>paroi_menuiseries p. menuiserie_surface m * menuiserie_u_value m * paroi_b_coef p)
        = (\<Sum>m\<leftarrow>paroi_menuiseries p. menuiserie_surface m * menuiserie_u_value m) * paroi_b_coef p"
    by (simp add: sum_list_mult_const)
  then show ?thesis
    by (simp add: calcul_deperditions_def py_sum_sum_list)
qed

text \<open>The wall of 5 m by 2.5 m with one single-glazed window of 1 m by 1.2 m loses 35.21 W/K.\<close>

theorem calcul_deperditions_formula_witness:
  "calcul_deperditions (mur_nord\<lparr>paroi_menuiseries := [fenetre_1]\<rparr>) = 35.21"
  using calcul_deperditions_formula [of "mur_nord\<lparr>paroi_menuiseries := [fenetre_1]\<rparr>"]
  by (simp add: get_surface_nette_def get_surface_vitree_def py_sum_def mur_nord_def fenetre_1_def)

section \<open>Thermal bridges\<close>

text \<open>
  Claim C2. The estimate is specified as a sum over the walls whose contact is outdoor or
  unheated only: their window perimeters times 0.1, plus 0.35 and 0.25 times their summed
  lengths; a heated-interior wall contributes to no term. \<open>calcul_ponts_thermiques_auto\<close>
  applies the contact test to the length accumulation alone; the window loop runs before
  the test, for every wall. On the project whose single wall has heated-interior contact,
  length 5, and hosts one window of 1 m by 1.2 m, the code returns 0.44 W/K where the
  specified formula gives 0.
\<close>

theorem ponts_thermiques_cloison_divergence:
  "calcul_ponts_thermiques_auto
     (projet_un_mur (mur_nord\<lparr>paroi_contact := Interieur_Chauffe,
                              paroi_menuiseries := [fenetre_1]\<rparr>)) = 0.44
   \<and> estimateThermalBridges_spec
     (projet_un_mur (mur_nord\<lparr>paroi_contact := Interieur_Chauffe,
                              paroi_menuiseries := [fenetre_1]\<rparr>)) = 0"
  by (simp add: calcul_ponts_thermiques_auto_def estimateThermalBridges_spec_def projet_un_mur_def
        Projet_init_def salon_def mur_nord_def fenetre_1_def murs_du_projet_def
        contact_deperditif_def Interieur_Chauffe_def Exterieur_def Local_Non_Chauffe_def e_aigu_def
        psi_menuiserie_def psi_plancher_def psi_plafond_def)

text \<open>
  Claim C8. A project whose only wall has length 5 and contact "Exterieur" and hosts one
  glazing unit of width 1.0 and height 1.2 has a thermal-bridge estimate of 3.44 W/K,
  whatever its rooms, floors and ceilings are.
\<close>

theorem ponts_thermiques_scenario:
  assumes "murs_du_projet pr = [mur]"
    and "paroi_longueur mur = 5"
    and "paroi_contact mur = Exterieur"
    and "paroi_menuiseries mur = [fen]"
    and "menuiserie_largeur fen = 1.0"
    and "menuiserie_hauteur fen = 1.2"
  shows "calcul_ponts_thermiques_auto pr = 3.44"
  using assms by (simp add: calcul_ponts_closed contact_deperditif_def)

theorem ponts_thermiques_scenario_witness:
  "murs_du_projet (projet_un_mur (mur_nord\<lparr>paroi_menuiseries := [fenetre_1]\<rparr>))
     = [mur_nord\<lparr>paroi_menuiseries := [fenetre_1]\<rparr>]
   \<and> paroi_longueur (mur_nord\<lparr>paroi_menuiseries := [fenetre_1]\<rparr>) = 5
   \<and> paroi_contact (mur_nord\<lparr>paroi_menuiseries := [fenetre_1]\<rparr>) = Exterieur
   \<and> paroi_menuiseries (mur_nord\<lparr>paroi_menuiseries := [fenetre_1]\<rparr>) = [fenetre_1]
   \<and> menuiserie_largeur fenetre_1 = 1.0
   \<and> menuiserie_hauteur fenetre_1 = 1.2
   \<and> calcul_ponts_thermiques_auto (projet_un_mur (mur_nord\<lparr>paroi_menuiseries := [fenetre_1]\<rparr>))
       = 3.44"
proof -
  let ?mur = "mur_nord\<lparr>paroi_menuiseries := [fenetre_1]\<rparr>"
  have 1: "murs_du_projet (projet_un_mur ?mur) = [?mur]"
    by (simp add: murs_du_projet_def projet_un_mur_def Projet_init_def salon_def)
  have 2: "paroi_longueur ?mur = 5" and 3: "paroi_contact ?mur = Exterieur"
    and 4: "paroi_menuiseries ?mur = [fenetre_1]"
    by (simp_all add: mur_nord_def)
  have 5: "menuiserie_largeur fenetre_1 = 1.0" and 6: "menuiserie_hauteur fenetre_1 = 1.2"
    by (simp_all add: fenetre_1_def)
  from ponts_thermiques_scenario [OF 1 2 3 4 5 6] 1 2 3 4 5 6 show ?thesis
    by blast
qed

section \<open>Adding glazing to an element\<close>




text \<open>
  Claim C10. A call of \<open>ajouter_menuiserie\<close> on an element object returns normally and
  changes only that object's glazing list, which gains the one unit at its end: every
  other attribute of the object (identifier, name, category, dimensions, gross area,
  orientation, contact, transmittance, coefficient \<open>b\<close>) and the units hosted before are
  unchanged, every other element object is unchanged, and so are all rooms and projects.
\<close>

theorem ajouter_menuiserie_cadre:
  assumes "tas_parois h r = Some p"
  shows "\<exists>h' p'. appel_ajouter_menuiserie h r m = Some (Inr h')
           \<and> tas_parois h' r = Some p'
           \<and> paroi_menuiseries p' = paroi_menuiseries p @ [m]
           \<and> paroi_id p' = paroi_id p
           \<and> paroi_nom p' = paroi_nom p
           \<and> paroi_type_paroi p' = paroi_type_paroi p
           \<and> paroi_longueur p' = paroi_longueur p
           \<and> paroi_hauteur_largeur p' = paroi_hauteur_largeur p
           \<and> paroi_surface_brute p' = paroi_surface_brute p
           \<and> paroi_orientation p' = paroi_orientation p
           \<and> paroi_contact p' = paroi_contact p
           \<and> paroi_u_value p' = paroi_u_value p
           \<and> paroi_b_coef p' = paroi_b_coef p
           \<and> (\<forall>r'. r' \<noteq> r \<longrightarrow> tas_parois h' r' = tas_parois h r')
           \<and> tas_pieces h' = tas_pieces h
           \<and> tas_projets h' = tas_projets h"
  using assms by (simp add: appel_ajouter_menuiserie_def ajouter_menuiserie_def)

text \<open>
  Two walls in one room: adding a window to the first leaves the second, the room and the
  project as they were.
\<close>

theorem ajouter_menuiserie_cadre_witness:
  "tas_parois tas_exemple 0 = Some mur_nord
   \<and> (\<exists>h' p'. appel_ajouter_menuiserie tas_exemple 0 fenetre_1 = Some (Inr h')
         \<and> tas_parois h' 0 = Some p'
         \<and> paroi_menuiseries p' = paroi_menuiseries mur_nord @ [fenetre_1]
         \<and> paroi_surface_brute p' = paroi_surface_brute mur_nord
         \<and> tas_parois h' 1 = tas_parois tas_exemple 1
         \<and> tas_pieces h' = tas_pieces tas_exemple
         \<and> tas_projets h' = tas_projets tas_exemple)"
proof -
  have a: "tas_parois tas_exemple 0 = Some mur_nord"
    by (simp add: tas_exemple_def)
  have b: "(1::nat) \<noteq> 0"
    by simp
  from ajouter_menuiserie_cadre [OF a, of fenetre_1] a b show ?thesis
    by blast
qed

section \<open>Constructors\<close>

text \<open>
  Claim C4, as the code has it. No constructor validates its dimensions and none fails:
  for every width, height, length and breadth, positive or not, \<open>Menuiserie\<close>, \<open>Paroi\<close> and
  \<open>Piece\<close> return an object that stores the dimensions as given and whose area (and
  volume) is their product.
\<close>

theorem constructeurs_sans_validation:
  "(\<exists>m. Menuiserie_init m_uid m_nom largeur hauteur vitrage_type = Inr m
       \<and> menuiserie_largeur m = largeur \<and> menuiserie_hauteur m = hauteur
       \<and> menuiserie_surface m = largeur * hauteur)
   \<and> (\<exists>p. Paroi_init p_uid p_nom type_paroi longueur hauteur_largeur orientation contact
              annee_iso materiau = Inr p
       \<and> paroi_longueur p = longueur \<and> paroi_hauteur_largeur p = hauteur_largeur
       \<and> paroi_surface_brute p = longueur * hauteur_largeur)
   \<and> (\<exists>r. (Piece_init r_uid r_nom r_longueur r_largeur r_hauteur :: error + paroi piece) = Inr r
       \<and> piece_longueur r = r_longueur \<and> piece_largeur r = r_largeur
       \<and> piece_hauteur r = r_hauteur
       \<and> piece_surface_hab r = r_longueur * r_largeur
       \<and> piece_volume r = r_longueur * r_largeur * r_hauteur)"
  by (simp add: Menuiserie_init_def Paroi_init_def Piece_init_def Let_def)

text \<open>The window of 1 m by 1.2 m, the wall of 5 m by 2.5 m and the room of 5 m by 4 m by 2.5 m.\<close>

theorem constructeurs_sans_validation_witness:
  "(\<exists>m. Menuiserie_init ''f1'' ''Fenetre 1'' 1.0 1.2 ''Simple vitrage'' = Inr m
       \<and> menuiserie_largeur m = 1.0 \<and> menuiserie_hauteur m = 1.2
       \<and> menuiserie_surface m = 1.0 * 1.2)
   \<and> (\<exists>p. Paroi_init ''m1'' ''Mur Nord'' ''MUR'' 5 2.5 ''Nord'' Exterieur 0 ''Parpaing Creux''
            = Inr p
       \<and> paroi_longueur p = 5 \<and> paroi_hauteur_largeur p = 2.5
       \<and> paroi_surface_brute p = 5 * 2.5)
   \<and> (\<exists>r. (Piece_init ''p1'' ''Salon'' 5 4 2.5 :: error + paroi piece) = Inr r
       \<and> piece_longueur r = 5 \<and> piece_largeur r = 4 \<and> piece_hauteur r = 2.5
       \<and> piece_surface_hab r = 5 * 4
       \<and> piece_volume r = 5 * 4 * 2.5)"
  by (rule constructeurs_sans_validation
        [where m_uid = "''f1''" and m_nom = "''Fenetre 1''" and largeur = "1.0" and hauteur = "1.2"
           and vitrage_type = "''Simple vitrage''"
           and p_uid = "''m1''" and p_nom = "''Mur Nord''" and type_paroi = "''MUR''"
           and longueur = 5 and hauteur_largeur = "2.5" and orientation = "''Nord''"
           and contact = Exterieur and annee_iso = 0 and materiau = "''Parpaing Creux''"
           and r_uid = "''p1''" and r_nom = "''Salon''" and r_longueur = 5 and r_largeur = 4
           and r_hauteur = "2.5"])

text \<open>
  A window of width 0 and height -1, a wall of length -5 and a room of height 0 are all
  constructed.
\<close>

theorem constructeurs_dimension_negative_counterexample:
  "Menuiserie_init ''f0'' ''Fenetre'' 0 (- 1) ''Simple vitrage''
     = Inr \<lparr> menuiserie_id = ''f0'', menuiserie_nom = ''Fenetre'',
             menuiserie_largeur = 0, menuiserie_hauteur = - 1, menuiserie_surface = 0,
             menuiserie_vitrage_type = ''Simple vitrage'', menuiserie_u_value = 5.8 \<rparr>
   \<and> Paroi_init ''m0'' ''Mur'' ''MUR'' (- 5) 2.5 ''Nord'' Exterieur 0 ''Brique''
     = Inr \<lparr> paroi_id = ''m0'', paroi_nom = ''Mur'', paroi_type_paroi = ''MUR'',
             paroi_longueur = - 5, paroi_hauteur_largeur = 2.5, paroi_surface_brute = - 12.5,
             paroi_orientation = ''Nord'', paroi_contact = Exterieur, paroi_menuiseries = [],
             paroi_u_value = 1.5, paroi_b_coef = 1.0 \<rparr>
   \<and> (Piece_init ''p0'' ''Salon'' 5 4 0 :: error + paroi piece)
     = Inr \<lparr> piece_id = ''p0'', piece_nom = ''Salon'', piece_longueur = 5, piece_largeur = 4,
             piece_hauteur = 0, piece_surface_hab = 20, piece_volume = 0,
             piece_murs = [], piece_planchers = [], piece_plafonds = [] \<rparr>"
  by (simp add: Menuiserie_init_def Paroi_init_def Piece_init_def Let_def vitrage_u_value_def
        Beton_def Exterieur_def Local_Non_Chauffe_def e_aigu_def)

text \<open>
  Claim C6. For a fixed material and the other constructor inputs fixed, the transmittance
  of a constructed element does not increase with the insulation year: for all years
  \<open>y1 \<le> y2\<close> both constructions succeed and the element of year \<open>y2\<close> has a \<open>u_value\<close> at
  most that of the element of year \<open>y1\<close>. (The two objects draw their own identifiers.)
\<close>

theorem u_value_decroissant_annee:
  assumes "y1 \<le> y2"
  shows "\<exists>p1 p2. Paroi_init uid1 nom ty l hl orient contact y1 materiau = Inr p1
               \<and> Paroi_init uid2 nom ty l hl orient contact y2 materiau = Inr p2
               \<and> paroi_u_value p2 \<le> paroi_u_value p1"
  using assms by (simp add: Paroi_init_def Let_def)

text \<open>In particular U(2020) \<open>\<le>\<close> U(2010) \<open>\<le>\<close> U(1990) \<open>\<le>\<close> U(1970), here for a brick wall.\<close>

theorem u_value_decroissant_annee_witness:
  "\<exists>p1970 p1990 p2010 p2020.
     Paroi_init ''a'' ''Mur Nord'' ''MUR'' 5 2.5 ''Nord'' Exterieur 1970 ''Brique'' = Inr p1970
   \<and> Paroi_init ''b'' ''Mur Nord'' ''MUR'' 5 2.5 ''Nord'' Exterieur 1990 ''Brique'' = Inr p1990
   \<and> Paroi_init ''c'' ''Mur Nord'' ''MUR'' 5 2.5 ''Nord'' Exterieur 2010 ''Brique'' = Inr p2010
   \<and> Paroi_init ''d'' ''Mur Nord'' ''MUR'' 5 2.5 ''Nord'' Exterieur 2020 ''Brique'' = Inr p2020
   \<and> paroi_u_value p2020 \<le> paroi_u_value p2010
   \<and> paroi_u_value p2010 \<le> paroi_u_value p1990
   \<and> paroi_u_value p1990 \<le> paroi_u_value p1970"
  using u_value_decroissant_annee
      [where ?y1.0 = 1970 and ?y2.0 = 1990 and ?uid1.0 = "''a''" and ?uid2.0 = "''b''"
        and nom = "''Mur Nord''" and ty = "''MUR''" and l = 5 and hl = "2.5"
        and orient = "''Nord''" and contact = Exterieur and materiau = "''Brique''"]
    u_value_decroissant_annee
      [where ?y1.0 = 1990 and ?y2.0 = 2010 and ?uid1.0 = "''b''" and ?uid2.0 = "''c''"
        and nom = "''Mur Nord''" and ty = "''MUR''" and l = 5 and hl = "2.5"
        and orient = "''Nord''" and contact = Exterieur and materiau = "''Brique''"]
    u_value_decroissant_annee
      [where ?y1.0 = 2010 and ?y2.0 = 2020 and ?uid1.0 = "''c''" and ?uid2.0 = "''d''"
        and nom = "''Mur Nord''" and ty = "''MUR''" and l = 5 and hl = "2.5"
        and orient = "''Nord''" and contact = Exterieur and materiau = "''Brique''"]
  by (simp add: Paroi_init_def Let_def)

section \<open>Rooms\<close>

text \<open>
  Claim C5, as the code has it. \<open>ajouter_paroi\<close> appends an element whose category is
  "MUR", "PLANCHER" or "PLAFOND" to the walls, floors or ceilings of the room
  respectively, and to that list only. For any other category the call returns normally,
  raises no error, and leaves the room as it was.
\<close>

theorem ajouter_paroi_routage:
  "(paroi_type_paroi p = ''MUR'' \<longrightarrow>
      ajouter_paroi self p = Inr (self\<lparr>piece_murs := piece_murs self @ [p]\<rparr>))
   \<and> (paroi_type_paroi p = ''PLANCHER'' \<longrightarrow>
      ajouter_paroi self p = Inr (self\<lparr>piece_planchers := piece_planchers self @ [p]\<rparr>))
   \<and> (paroi_type_paroi p = ''PLAFOND'' \<longrightarrow>
      ajouter_paroi self p = Inr (self\<lparr>piece_plafonds := piece_plafonds self @ [p]\<rparr>))
   \<and> (paroi_type_paroi p \<notin> {''MUR'', ''PLANCHER'', ''PLAFOND''} \<longrightarrow>
      ajouter_paroi self p = Inr self)"
  by (simp add: ajouter_paroi_def)

theorem ajouter_paroi_routage_witness:
  "ajouter_paroi salon mur_nord = Inr (salon\<lparr>piece_murs := [mur_nord]\<rparr>)
   \<and> ajouter_paroi salon (mur_nord\<lparr>paroi_type_paroi := ''PLANCHER''\<rparr>)
       = Inr (salon\<lparr>piece_planchers := [mur_nord\<lparr>paroi_type_paroi := ''PLANCHER''\<rparr>]\<rparr>)
   \<and> ajouter_paroi salon (mur_nord\<lparr>paroi_type_paroi := ''PLAFOND''\<rparr>)
       = Inr (salon\<lparr>piece_plafonds := [mur_nord\<lparr>paroi_type_paroi := ''PLAFOND''\<rparr>]\<rparr>)
   \<and> ajouter_paroi salon (mur_nord\<lparr>paroi_type_paroi := ''TOITURE''\<rparr>) = Inr salon"
  using ajouter_paroi_routage [of mur_nord salon]
    ajouter_paroi_routage [of "mur_nord\<lparr>paroi_type_paroi := ''PLANCHER''\<rparr>" salon]
    ajouter_paroi_routage [of "mur_nord\<lparr>paroi_type_paroi := ''PLAFOND''\<rparr>" salon]
    ajouter_paroi_routage [of "mur_nord\<lparr>paroi_type_paroi := ''TOITURE''\<rparr>" salon]
  by (simp add: mur_nord_def salon_def)

text \<open>An element of category "TOITURE" is dropped silently: no error is raised.\<close>

theorem ajouter_paroi_categorie_inconnue_counterexample:
  "paroi_type_paroi (mur_nord\<lparr>paroi_type_paroi := ''TOITURE''\<rparr>)
     \<notin> {''MUR'', ''PLANCHER'', ''PLAFOND''}
   \<and> ajouter_paroi salon (mur_nord\<lparr>paroi_type_paroi := ''TOITURE''\<rparr>) = Inr salon
   \<and> ajouter_paroi salon (mur_nord\<lparr>paroi_type_paroi := ''TOITURE''\<rparr>) \<noteq> Inl UnknownCategory"
  by (simp add: ajouter_paroi_def)

section \<open>Whole-building heat loss\<close>

text \<open>
  Claim C7. For every project, the total returned by \<open>calcul_global_deperditions\<close> is the
  sum of the \<open>Deperdition\<close> values of the rows returned with it (as a mathematical sum and
  as Python's left-to-right \<open>sum\<close>). The rows are one per element, in the order of the
  rooms and, within a room, walls then floors then ceilings, each carrying the element's
  \<open>calcul_deperditions\<close>, followed by one last row for the thermal bridges.
\<close>

theorem total_egal_somme_lignes:
  "fst (calcul_global_deperditions pr)
     = sum_list (map ligne_Deperdition (snd (calcul_global_deperditions pr)))
   \<and> fst (calcul_global_deperditions pr)
     = py_sum (map ligne_Deperdition (snd (calcul_global_deperditions pr)))
   \<and> length (snd (calcul_global_deperditions pr))
     = length (concat (map parois_piece (projet_pieces pr))) + 1
   \<and> map ligne_Deperdition (butlast (snd (calcul_global_deperditions pr)))
     = map calcul_deperditions (concat (map parois_piece (projet_pieces pr)))
   \<and> last (snd (calcul_global_deperditions pr))
     = \<lparr> ligne_Element = ''Global'', ligne_Type = ''Ponts Thermiques'',
         ligne_Deperdition = calcul_ponts_thermiques_auto pr \<rparr>"
proof -
  have "length (concat (map lignes_piece ps)) = length (concat (map parois_piece ps))" for ps
    using arg_cong [OF valeurs_lignes_pieces [of ps], of length] by simp
  then show ?thesis
    by (simp add: calcul_global_eq py_sum_sum_list valeurs_lignes_pieces)
qed

text \<open>One room, one outdoor wall with one window: 35.21 + 3.44 = 38.65 W/K in two rows.\<close>

theorem total_egal_somme_lignes_witness:
  "calcul_global_deperditions (projet_un_mur (mur_nord\<lparr>paroi_menuiseries := [fenetre_1]\<rparr>))
     = (38.65,
        [\<lparr> ligne_Element = ''Salon - Mur Nord'', ligne_Type = ''Mur+Baies'',
            ligne_Deperdition = 35.21 \<rparr>,
         \<lparr> ligne_Element = ''Global'', ligne_Type = ''Ponts Thermiques'',
            ligne_Deperdition = 3.44 \<rparr>])
   \<and> fst (calcul_global_deperditions (projet_un_mur (mur_nord\<lparr>paroi_menuiseries := [fenetre_1]\<rparr>)))
     = sum_list (map ligne_Deperdition
         (snd (calcul_global_deperditions
                 (projet_un_mur (mur_nord\<lparr>paroi_menuiseries := [fenetre_1]\<rparr>)))))"
proof -
  have "calcul_global_deperditions (projet_un_mur (mur_nord\<lparr>paroi_menuiseries := [fenetre_1]\<rparr>))
     = (38.65,
        [\<lparr> ligne_Element = ''Salon - Mur Nord'', ligne_Type = ''Mur+Baies'',
            ligne_Deperdition = 35.21 \<rparr>,
         \<lparr> ligne_Element = ''Global'', ligne_Type = ''Ponts Thermiques'',
            ligne_Deperdition = 3.44 \<rparr>])"
    by (simp add: calcul_global_deperditions_def calcul_ponts_thermiques_auto_def
          calcul_deperditions_def get_surface_nette_def get_surface_vitree_def py_sum_def
          projet_un_mur_def Projet_init_def salon_def mur_nord_def fenetre_1_def
          psi_menuiserie_def psi_plancher_def psi_plafond_def
          Exterieur_def Local_Non_Chauffe_def e_aigu_def Let_def)
  with total_egal_somme_lignes
         [of "projet_un_mur (mur_nord\<lparr>paroi_menuiseries := [fenetre_1]\<rparr>)"]
  show ?thesis
    by simp
qed

text \<open>
  Claim C9. For a freshly created project, which holds no room,
  \<open>calcul_global_deperditions\<close> returns the total 0.0 and a report of exactly one row: the
  thermal-bridge row ("Global", "Ponts Thermiques") with value 0.0.
\<close>

theorem projet_vide_deperditions:
  "calcul_global_deperditions Projet_init =
     (0.0, [\<lparr> ligne_Element = ''Global'', ligne_Type = ''Ponts Thermiques'',
               ligne_Deperdition = 0.0 \<rparr>])"
  by (simp add: calcul_global_deperditions_def calcul_ponts_thermiques_auto_def Projet_init_def)

end
